theory Spec2Isabelle
  imports Complex_Main "HOL-Library.Word"
begin

section \<open>JavaScript strings\<close>

text \<open>
  A JavaScript string is a sequence of UTF-16 code units. The literals of the source are
  ASCII (one em dash apart), so they are written as Isabelle strings and injected with
  \<open>js\<close>.
\<close>

type_synonym jsstring = "16 word list"

definition js :: "string \<Rightarrow> jsstring" where
  "js s = map (\<lambda>c. of_char c) s"

text \<open>
  The code units that \<open>String.prototype.trim\<close> strips and that the regular
  expression class \<open>\s\<close> matches: WhiteSpace and LineTerminator of ECMAScript.
\<close>

definition isWhiteSpace :: "16 word \<Rightarrow> bool" where
  "isWhiteSpace c \<longleftrightarrow>
     c \<in> set [0x0009, 0x000A, 0x000B, 0x000C, 0x000D, 0x0020, 0x00A0, 0x1680,
               0x2000, 0x2001, 0x2002, 0x2003, 0x2004, 0x2005, 0x2006, 0x2007,
               0x2008, 0x2009, 0x200A, 0x2028, 0x2029, 0x202F, 0x205F, 0x3000, 0xFEFF]"

definition trim :: "jsstring \<Rightarrow> jsstring" where
  "trim s = rev (dropWhile isWhiteSpace (rev (dropWhile isWhiteSpace s)))"

text \<open>
  \<open>s.split(/\s+/)\<close>: every maximal run of white space is one separator; the pieces
  before the first and after the last separator are kept even when empty, so the empty
  string splits into one empty piece.
\<close>

function split_ws :: "jsstring \<Rightarrow> jsstring list" where
  "split_ws [] = [[]]"
| "split_ws (c # cs) =
     (if isWhiteSpace c then [] # split_ws (dropWhile isWhiteSpace cs)
      else (case split_ws cs of
              [] \<Rightarrow> [[c]]
            | w # ws \<Rightarrow> (c # w) # ws))"
  by pat_completeness auto
termination
  by (relation "measure length") (auto simp: length_dropWhile_le less_Suc_eq_le)

text \<open>JavaScript's \<open>a || b\<close> on optional strings: \<open>undefined\<close> and the empty string are falsy.\<close>

definition truthy :: "jsstring option \<Rightarrow> bool" where
  "truthy v = (case v of None \<Rightarrow> False | Some s \<Rightarrow> s \<noteq> [])"

section \<open>The transcript reconciler (hooks/useVapi.ts)\<close>

datatype Role = Assistant | User

record TranscriptEntry =
  role :: Role
  "text" :: jsstring
  isFinal :: bool
  timestamp :: int

text \<open>The fields of an engine message that the handler reads.\<close>

record message =
  msg_type :: jsstring
  msg_role :: jsstring
  msg_transcript :: "jsstring option"
  msg_text :: "jsstring option"
  msg_transcriptType :: jsstring

text \<open>\<open>Array.prototype.findIndex\<close>, with \<open>None\<close> for the result -1.\<close>

fun findIndex :: "('a \<Rightarrow> bool) \<Rightarrow> 'a list \<Rightarrow> nat option" where
  "findIndex P [] = None"
| "findIndex P (x # xs) = (if P x then Some 0 else map_option Suc (findIndex P xs))"

text \<open>
  The updater passed to \<open>setTranscript\<close>: \<open>r\<close>, \<open>t\<close> and \<open>fin\<close> are the
  handler's \<open>role\<close>, \<open>text\<close> and \<open>isFinal\<close>, \<open>now\<close> is the value of
  \<open>Date.now()\<close>, \<open>prev\<close> the current entry list.
\<close>

definition updater :: "Role \<Rightarrow> jsstring \<Rightarrow> bool \<Rightarrow> int \<Rightarrow> TranscriptEntry list \<Rightarrow> TranscriptEntry list" where
  "updater r t fin now prev =
     (if fin then
        (let withoutPartial = filter (\<lambda>e. \<not> (role e = r \<and> \<not> isFinal e)) prev
         in withoutPartial @ [\<lparr>role = r, text = t, isFinal = True, timestamp = now\<rparr>])
      else
        (case findIndex (\<lambda>e. role e = r \<and> \<not> isFinal e) prev of
           Some idx \<Rightarrow> prev[idx := (prev ! idx)\<lparr>text := t\<rparr>]
         | None \<Rightarrow> prev @ [\<lparr>role = r, text = t, isFinal = False, timestamp = now\<rparr>]))"

definition message_role :: "message \<Rightarrow> Role" where
  "message_role m = (if msg_role m = js ''assistant'' then Assistant else User)"

definition message_text :: "message \<Rightarrow> jsstring" where
  "message_text m =
     (if truthy (msg_transcript m) then the (msg_transcript m)
      else if truthy (msg_text m) then the (msg_text m)
      else [])"

definition message_isFinal :: "message \<Rightarrow> bool" where
  "message_isFinal m \<longleftrightarrow> msg_transcriptType m = js ''final''"

text \<open>
  The transcript part of the \<open>vapi.on("message")\<close> handler, as a function of the entry
  list: messages of another type and messages whose text trims to the empty string leave
  the list alone.
\<close>

definition on_message :: "int \<Rightarrow> message \<Rightarrow> TranscriptEntry list \<Rightarrow> TranscriptEntry list" where
  "on_message now m prev =
     (if msg_type m = js ''transcript'' then
        (if trim (message_text m) = [] then prev
         else updater (message_role m) (message_text m) (message_isFinal m) now prev)
      else prev)"

text \<open>A sequence of messages, each with the clock value at its arrival, processed in order.\<close>

definition reconcile :: "(int \<times> message) list \<Rightarrow> TranscriptEntry list \<Rightarrow> TranscriptEntry list" where
  "reconcile evs start = foldl (\<lambda>tr (now, m). on_message now m tr) start evs"

definition partials :: "Role \<Rightarrow> TranscriptEntry list \<Rightarrow> TranscriptEntry list" where
  "partials r es = filter (\<lambda>e. role e = r \<and> \<not> isFinal e) es"

text \<open>
  Three messages for concrete runs: an interim hypothesis of the candidate, a committed
  sentence of the interviewer, the candidate's committed sentence; and a blank one.
\<close>

definition partial_user_msg :: message where
  "partial_user_msg =
     \<lparr>msg_type = js ''transcript'', msg_role = js ''user'',
      msg_transcript = Some (js ''Hi there I think''), msg_text = None,
      msg_transcriptType = js ''partial''\<rparr>"

definition final_assistant_msg :: message where
  "final_assistant_msg =
     \<lparr>msg_type = js ''transcript'', msg_role = js ''assistant'',
      msg_transcript = Some (js ''Go ahead''), msg_text = None,
      msg_transcriptType = js ''final''\<rparr>"

definition final_user_msg :: message where
  "final_user_msg =
     \<lparr>msg_type = js ''transcript'', msg_role = js ''user'',
      msg_transcript = Some (js ''Hi there I think I am ready''), msg_text = None,
      msg_transcriptType = js ''final''\<rparr>"

definition blank_user_msg :: message where
  "blank_user_msg =
     \<lparr>msg_type = js ''transcript'', msg_role = js ''user'',
      msg_transcript = None, msg_text = Some [0x0020, 0x0009, 0x00A0],
      msg_transcriptType = js ''final''\<rparr>"

text \<open>The invariant of the data model, for one role: at most one non-final entry.\<close>

definition one_partial :: "Role \<Rightarrow> TranscriptEntry list \<Rightarrow> bool" where
  "one_partial r es \<longleftrightarrow> length (partials r es) \<le> 1"

section \<open>The evaluation heuristic (evaluateTranscript)\<close>

text \<open>
  JavaScript numbers are modelled as exact rationals; scores, which the source rounds with
  \<open>Math.round\<close>, are integers. \<open>Math.round\<close> rounds to the nearest integer, a
  half upwards.
\<close>

definition Math_round :: "rat \<Rightarrow> int" where
  "Math_round x = \<lfloor>x + 1 / 2\<rfloor>"

record CategoryScore =
  name :: jsstring
  score :: int
  comment :: jsstring

record EvaluationResult =
  totalScore :: int
  categoryScores :: "CategoryScore list"
  strengths :: "jsstring list"
  areasForImprovement :: "jsstring list"
  finalAssessment :: jsstring

text \<open>\<open>catScore\<close>: \<open>rnd\<close> is the value that \<open>Math.random()\<close> returns in this call.\<close>

definition catScore :: "rat \<Rightarrow> rat \<Rightarrow> rat \<Rightarrow> int" where
  "catScore rnd base variance =
     (let jitter = (rnd - 1 / 2) * variance
      in max 50 (min 82 (Math_round (base + jitter))))"

definition userEntries :: "TranscriptEntry list \<Rightarrow> TranscriptEntry list" where
  "userEntries entries = filter (\<lambda>e. isFinal e \<and> role e = User) entries"

definition totalUserWords :: "TranscriptEntry list \<Rightarrow> nat" where
  "totalUserWords ues = foldl (\<lambda>sum e. sum + length (split_ws (text e))) 0 ues"

definition avgWordsPerAnswer :: "TranscriptEntry list \<Rightarrow> rat" where
  "avgWordsPerAnswer ues =
     (if length ues > 0 then of_nat (totalUserWords ues) / of_nat (length ues) else 0)"

definition answeredRatio :: "TranscriptEntry list \<Rightarrow> int \<Rightarrow> rat" where
  "answeredRatio ues questionCount = min (of_nat (length ues) / of_int (max questionCount 1)) 1"

definition hasSubstance :: "rat \<Rightarrow> bool" where
  "hasSubstance avg \<longleftrightarrow> avg \<ge> 15"

definition isDetailed :: "rat \<Rightarrow> bool" where
  "isDetailed avg \<longleftrightarrow> avg \<ge> 40"

definition isVerbose :: "rat \<Rightarrow> bool" where
  "isVerbose avg \<longleftrightarrow> avg > 120"

definition commBase :: "rat \<Rightarrow> rat \<Rightarrow> rat" where
  "commBase ratio avg =
     58 + ratio * 12 + (if hasSubstance avg then 5 else 0) + (if isDetailed avg then 4 else 0)
       - (if isVerbose avg then 3 else 0)"

definition techBase :: "rat \<Rightarrow> rat \<Rightarrow> nat \<Rightarrow> rat" where
  "techBase ratio avg twords =
     55 + ratio * 10 + (if isDetailed avg then 6 else 0) + (if twords > 200 then 3 else 0)"

definition problemBase :: "rat \<Rightarrow> rat \<Rightarrow> rat" where
  "problemBase ratio avg =
     54 + ratio * 10 + (if isDetailed avg then 5 else 0) + (if avg > 25 then 3 else 0)"

definition cultureBase :: "rat \<Rightarrow> rat \<Rightarrow> rat" where
  "cultureBase ratio avg = 60 + ratio * 8 + (if hasSubstance avg then 4 else 0)"

definition confBase :: "rat \<Rightarrow> rat \<Rightarrow> rat" where
  "confBase ratio avg =
     56 + ratio * 12 + (if hasSubstance avg then 5 else 0) + (if isDetailed avg then 3 else 0)
       - (if isVerbose avg then 4 else 0)"

text \<open>
  The five category objects, in the order of the array literal. \<open>rnd k\<close> is the value of
  the \<open>k\<close>-th call of \<open>Math.random()\<close> during one evaluation.
\<close>

definition categories :: "(nat \<Rightarrow> rat) \<Rightarrow> rat \<Rightarrow> rat \<Rightarrow> nat \<Rightarrow> CategoryScore list" where
  "categories rnd ratio avg twords =
     [\<lparr>name = js ''Communication Skills'',
       score = catScore (rnd 0) (commBase ratio avg) 6,
       comment =
         (if avg \<ge> 30 then js ''Responses were clear and well-structured with good articulation.''
          else if avg \<ge> 15 then js ''Communication was adequate but could benefit from more detailed responses.''
          else js ''Responses were brief. Expanding on answers would improve clarity.'')\<rparr>,
      \<lparr>name = js ''Technical Knowledge'',
       score = catScore (rnd 1) (techBase ratio avg twords) 7,
       comment =
         (if isDetailed avg then js ''Demonstrated solid understanding of technical concepts discussed.''
          else if hasSubstance avg then js ''Showed reasonable technical awareness but could go deeper on specifics.''
          else js ''Technical depth was limited. More concrete examples would strengthen responses.'')\<rparr>,
      \<lparr>name = js ''Problem Solving'',
       score = catScore (rnd 2) (problemBase ratio avg) 6,
       comment =
         (if isDetailed avg then js ''Good analytical approach when breaking down problems.''
          else js ''Problem-solving approach could be more structured with clearer reasoning.'')\<rparr>,
      \<lparr>name = js ''Cultural Fit'',
       score = catScore (rnd 3) (cultureBase ratio avg) 5,
       comment =
         (if hasSubstance avg then js ''Values and attitudes align reasonably well with team expectations.''
          else js ''Difficult to fully assess cultural fit from brief responses.'')\<rparr>,
      \<lparr>name = js ''Confidence and Clarity'',
       score = catScore (rnd 4) (confBase ratio avg) 6,
       comment =
         (if isDetailed avg then js ''Spoke confidently with clear, structured explanations.''
          else if hasSubstance avg then js ''Showed adequate confidence but could be more assertive in delivery.''
          else js ''Would benefit from more confident and elaborate delivery.'')\<rparr>]"

definition totalScore_of :: "CategoryScore list \<Rightarrow> int" where
  "totalScore_of cats =
     max 50 (min 82 (Math_round (of_int (foldl (\<lambda>s c. s + score c) 0 cats) / of_nat (length cats))))"

text \<open>The literals of the feedback lines; the fourth improvement contains an em dash (U+2014).\<close>

definition improve_detail :: jsstring where
  "improve_detail = js ''Work on providing more detailed and structured responses.''"

definition improve_technical :: jsstring where
  "improve_technical = js ''Strengthen technical depth with specific examples and terminology.''"

definition improve_all_questions :: jsstring where
  "improve_all_questions = js ''Try to address all questions asked during the interview.''"

definition improve_comprehensive :: jsstring where
  "improve_comprehensive =
     js ''Aim for more comprehensive answers '' @ [0x2014] @ js '' 60 to 90 seconds per response.''"

definition improve_concise :: jsstring where
  "improve_concise = js ''Consider being more concise to keep answers focused.''"

definition improve_confidence :: jsstring where
  "improve_confidence = js ''Practice speaking with more confidence and conviction.''"

text \<open>
  The two arrays \<open>strengths\<close> and \<open>improvements\<close>, threaded as a pair through the
  sequence of \<open>push\<close> statements and the two fallbacks.
\<close>

definition feedback :: "rat \<Rightarrow> rat \<Rightarrow> nat \<Rightarrow> jsstring list \<times> jsstring list" where
  "feedback ratio avg twords =
     (let (st, im) = ([], []);
          (st, im) = (if commBase ratio avg \<ge> 68
                      then (st @ [js ''Good communication and articulation throughout the session.''], im)
                      else (st, im @ [improve_detail]));
          (st, im) = (if techBase ratio avg twords \<ge> 65
                      then (st @ [js ''Solid technical understanding in the discussed areas.''], im)
                      else (st, im @ [improve_technical]));
          (st, im) = (if ratio \<ge> 8 / 10
                      then (st @ [js ''Engaged well with most of the interview questions.''], im)
                      else (st, im @ [improve_all_questions]));
          (st, im) = (if isDetailed avg
                      then (st @ [js ''Provided detailed answers showing depth of thought.''], im)
                      else (st, im @ [improve_comprehensive]));
          im = (if isVerbose avg then im @ [improve_concise] else im);
          (st, im) = (if confBase ratio avg \<ge> 68
                      then (st @ [js ''Confident delivery with clear explanations.''], im)
                      else (st, im @ [improve_confidence]));
          st = (if length st = 0
                then st @ [js ''Completed the interview and showed willingness to engage.'']
                else st);
          im = (if length im = 0
                then im @ [js ''Continue refining responses for even greater impact.'']
                else im)
      in (st, im))"

definition assessment :: "int \<Rightarrow> jsstring" where
  "assessment tot =
     (if tot \<ge> 75 then
        js ''Strong performance overall with clear strengths in communication and knowledge. Well-prepared candidate suitable for further consideration.''
      else if tot \<ge> 65 then
        js ''Adequate performance with room for growth. Demonstrated baseline competence and should focus on deepening technical responses and providing more specific examples.''
      else
        js ''Shows potential but needs further preparation. Focusing on more detailed responses, concrete examples, and confident delivery will lead to significant improvement.'')"

definition evaluateTranscript :: "(nat \<Rightarrow> rat) \<Rightarrow> TranscriptEntry list \<Rightarrow> int \<Rightarrow> EvaluationResult" where
  "evaluateTranscript rnd entries questionCount =
     (let ues = userEntries entries;
          twords = totalUserWords ues;
          avg = avgWordsPerAnswer ues;
          ratio = answeredRatio ues questionCount;
          cats = categories rnd ratio avg twords;
          tot = totalScore_of cats;
          (st, im) = feedback ratio avg twords
      in \<lparr>totalScore = tot,
          categoryScores = cats,
          strengths = st,
          areasForImprovement = im,
          finalAssessment = assessment tot\<rparr>)"

text \<open>The random draws without jitter: every \<open>Math.random()\<close> returns one half.\<close>

definition no_jitter :: "nat \<Rightarrow> rat" where
  "no_jitter k = 1 / 2"

section \<open>The call lifecycle (the useVapi hook)\<close>

text \<open>
  The voice engine is an external library. It is a parameter of the model: a state of some
  type \<open>'e\<close> and the three methods the hook calls, each returning the value it throws
  (if it throws) and the engine's next state.
\<close>

datatype thrown = Error jsstring | NonError

record 'e engine =
  eng_start :: "jsstring list \<Rightarrow> 'e \<Rightarrow> thrown option \<times> 'e"
  eng_stop :: "'e \<Rightarrow> thrown option \<times> 'e"
  eng_setMuted :: "bool \<Rightarrow> 'e \<Rightarrow> thrown option \<times> 'e"

text \<open>The React state of the hook and its \<open>vapiRef\<close>.\<close>

record 'e hook =
  isCallActive :: bool
  isMuted :: bool
  isLoading :: bool
  error :: "jsstring option"
  transcript :: "TranscriptEntry list"
  vapiRef :: "'e option"

text \<open>
  The state after the first render and its effect: without a public key the effect sets
  the error and creates no engine; with one it stores a new engine (state \<open>e0\<close>) in
  \<open>vapiRef\<close>.
\<close>

definition mount :: "bool \<Rightarrow> 'e \<Rightarrow> 'e hook" where
  "mount hasKey e0 =
     (let h = \<lparr>isCallActive = False, isMuted = False, isLoading = False, error = None,
               transcript = [], vapiRef = None\<rparr>
      in if \<not> hasKey then h\<lparr>error := Some (js ''Vapi public key not configured'')\<rparr>
         else h\<lparr>vapiRef := Some e0\<rparr>)"

text \<open>The listeners of the engine's events, as state updates of the hook.\<close>

definition on_call_start :: "'e hook \<Rightarrow> 'e hook" where
  "on_call_start h = h\<lparr>isCallActive := True, isLoading := False, error := None\<rparr>"

definition on_call_end :: "'e hook \<Rightarrow> 'e hook" where
  "on_call_end h = h\<lparr>isCallActive := False, isLoading := False\<rparr>"

definition on_transcript_message :: "int \<Rightarrow> message \<Rightarrow> 'e hook \<Rightarrow> 'e hook" where
  "on_transcript_message now m h = h\<lparr>transcript := on_message now m (transcript h)\<rparr>"

definition on_error :: "jsstring option \<Rightarrow> 'e hook \<Rightarrow> 'e hook" where
  "on_error err_message h =
     h\<lparr>error := Some (if truthy err_message then the err_message else js ''An error occurred''),
       isLoading := False\<rparr>"

text \<open>
  The commands. Each returns the value that escapes to its caller (\<open>None\<close> when it
  returns normally) and the hook's next state. \<open>startCall\<close> passes the engine a
  configuration built from the interview's questions; its \<open>catch\<close> turns every failure
  into the error state.
\<close>

definition startCall :: "'e engine \<Rightarrow> jsstring list \<Rightarrow> 'e hook \<Rightarrow> thrown option \<times> 'e hook" where
  "startCall E qs h =
     (case vapiRef h of
        None \<Rightarrow> (None, h)
      | Some v \<Rightarrow>
          if isCallActive h then (None, h)
          else
            (let h1 = h\<lparr>isLoading := True, error := None\<rparr>
             in case eng_start E qs v of
                  (None, v') \<Rightarrow> (None, h1\<lparr>vapiRef := Some v'\<rparr>)
                | (Some x, v') \<Rightarrow>
                    (let msg = (case x of Error m \<Rightarrow> m | NonError \<Rightarrow> js ''Failed to start call'')
                     in (None, h1\<lparr>vapiRef := Some v', error := Some msg, isLoading := False\<rparr>))))"

definition stopCall :: "'e engine \<Rightarrow> 'e hook \<Rightarrow> thrown option \<times> 'e hook" where
  "stopCall E h =
     (case vapiRef h of
        None \<Rightarrow> (None, h)
      | Some v \<Rightarrow> (case eng_stop E v of (x, v') \<Rightarrow> (x, h\<lparr>vapiRef := Some v'\<rparr>)))"

definition forceStop :: "'e engine \<Rightarrow> 'e hook \<Rightarrow> thrown option \<times> 'e hook" where
  "forceStop E h =
     (case vapiRef h of
        None \<Rightarrow> (None, h)
      | Some v \<Rightarrow>
          (let (x1, v1) = eng_setMuted E True v;
               (x2, v2) = eng_stop E v1
           in (None, h\<lparr>vapiRef := Some v2, isCallActive := False, isLoading := False,
                        isMuted := False\<rparr>)))"

definition toggleMute :: "'e engine \<Rightarrow> 'e hook \<Rightarrow> thrown option \<times> 'e hook" where
  "toggleMute E h =
     (case vapiRef h of
        None \<Rightarrow> (None, h)
      | Some v \<Rightarrow>
          if \<not> isCallActive h then (None, h)
          else
            (let newMutedState = \<not> isMuted h
             in case eng_setMuted E newMutedState v of
                  (Some x, v') \<Rightarrow> (Some x, h\<lparr>vapiRef := Some v'\<rparr>)
                | (None, v') \<Rightarrow> (None, h\<lparr>vapiRef := Some v', isMuted := newMutedState\<rparr>)))"

text \<open>
  What can happen to a mounted hook: an event of the engine, which only an existing engine
  emits, or a command of the caller. A run is a sequence of them.
\<close>

datatype action =
    CallStart
  | CallEnd
  | Message int message
  | EngineError "jsstring option"
  | StartCall "jsstring list"
  | StopCall
  | ForceStop
  | ToggleMute

fun hook_step :: "'e engine \<Rightarrow> 'e hook \<Rightarrow> action \<Rightarrow> 'e hook" where
  "hook_step E h CallStart = (if vapiRef h = None then h else on_call_start h)"
| "hook_step E h CallEnd = (if vapiRef h = None then h else on_call_end h)"
| "hook_step E h (Message now m) = (if vapiRef h = None then h else on_transcript_message now m h)"
| "hook_step E h (EngineError msg) = (if vapiRef h = None then h else on_error msg h)"
| "hook_step E h (StartCall qs) = snd (startCall E qs h)"
| "hook_step E h StopCall = snd (stopCall E h)"
| "hook_step E h ForceStop = snd (forceStop E h)"
| "hook_step E h ToggleMute = snd (toggleMute E h)"

definition run :: "'e engine \<Rightarrow> action list \<Rightarrow> 'e hook \<Rightarrow> 'e hook" where
  "run E acts h = foldl (hook_step E) h acts"

definition flags :: "'e hook \<Rightarrow> bool \<times> bool \<times> bool" where
  "flags h = (isCallActive h, isLoading h, isMuted h)"

text \<open>
  Two engines for concrete runs. The first records every call it receives and never
  throws. The second knows whether a call is in progress and throws from \<open>stop\<close> and
  \<open>setMuted\<close> when none is.
\<close>

datatype engine_call = Start | Stop | SetMuted bool

definition logging_engine :: "engine_call list engine" where
  "logging_engine =
     \<lparr>eng_start = (\<lambda>qs log. (None, log @ [Start])),
      eng_stop = (\<lambda>log. (None, log @ [Stop])),
      eng_setMuted = (\<lambda>b log. (None, log @ [SetMuted b]))\<rparr>"

definition strict_engine :: "bool engine" where
  "strict_engine =
     \<lparr>eng_start = (\<lambda>qs inCall. (None, True)),
      eng_stop = (\<lambda>inCall. (if inCall then None else Some (Error (js ''No call in progress'')), False)),
      eng_setMuted = (\<lambda>b inCall. (if inCall then None else Some (Error (js ''No call in progress'')), inCall))\<rparr>"

text \<open>
  The session has ended, as a caller of the hook sees it: no call is active and none is
  being set up. \<open>ended_muted_session\<close> is such a state of the second engine, reached
  by a run: the call starts, the caller mutes and stops it, the engine reports the end.
\<close>

definition ended :: "'e hook \<Rightarrow> bool" where
  "ended h \<longleftrightarrow> \<not> isCallActive h \<and> \<not> isLoading h"

definition ended_muted_session :: "bool hook" where
  "ended_muted_session =
     run strict_engine [StartCall [], CallStart, ToggleMute, StopCall, CallEnd] (mount True False)"

section \<open>The interview page (InterviewSession)\<close>

text \<open>
  The fields of an interview that the page reads; \<open>id_field\<close> and \<open>mongo_id_field\<close>
  are the source's \<open>id\<close> and \<open>_id\<close>.
\<close>

record Interview =
  id_field :: "jsstring option"
  mongo_id_field :: "jsstring option"
  userId :: jsstring
  questions :: "jsstring list"

record nav_state =
  nav_interview :: Interview
  nav_transcript :: "jsstring list"
  nav_evaluation :: EvaluationResult

record save_request =
  save_interviewId :: jsstring
  save_userId :: jsstring
  save_fullTranscript :: "jsstring list"
  save_evaluation :: EvaluationResult
  save_duration :: int

text \<open>
  What a handler does to the world outside the component, in the order it does it: a call
  of \<open>evaluateTranscript\<close>, a call of \<open>saveInterviewResponse\<close>, and a
  \<open>setTimeout\<close> whose callback navigates to the results after 8000 ms.
\<close>

datatype effect =
    Evaluated EvaluationResult
  | Saved save_request
  | NavigationScheduled

record 'e page =
  interview :: "Interview option"
  callStartTime :: "int option"
  showConfirm :: bool
  analysing :: bool
  pendingNavRef :: "nav_state option"
  vapi :: "'e hook"
  effects :: "effect list"

definition duration_of :: "int \<Rightarrow> int option \<Rightarrow> int" where
  "duration_of now cst =
     (case cst of
        None \<Rightarrow> 0
      | Some t \<Rightarrow> if t = 0 then 0 else (now - t) div 1000)"

definition finalTranscript_of :: "TranscriptEntry list \<Rightarrow> jsstring list" where
  "finalTranscript_of tr =
     map (\<lambda>e. (if role e = Assistant then js ''Interviewer'' else js ''You'') @ js '': '' @ text e)
       (filter isFinal tr)"

definition questionCount_of :: "Interview option \<Rightarrow> int" where
  "questionCount_of iv =
     (case iv of
        None \<Rightarrow> 3
      | Some i \<Rightarrow> if length (questions i) = 0 then 3 else int (length (questions i)))"

definition interviewId_of :: "Interview \<Rightarrow> jsstring option" where
  "interviewId_of i = (if truthy (id_field i) then id_field i else mongo_id_field i)"

definition emit :: "effect \<Rightarrow> 'e page \<Rightarrow> 'e page" where
  "emit x p = p\<lparr>effects := effects p @ [x]\<rparr>"

text \<open>
  \<open>onCallEnd\<close>, the callback the hook runs after its own \<open>call-end\<close> listener. The
  handler reads the component state of the latest render; \<open>now\<close> is \<open>Date.now()\<close>
  and \<open>rnd\<close> the random draws of this evaluation.
\<close>

definition onCallEnd :: "int \<Rightarrow> (nat \<Rightarrow> rat) \<Rightarrow> 'e page \<Rightarrow> 'e page" where
  "onCallEnd now rnd p =
     (if analysing p then p
      else
        (let duration = duration_of now (callStartTime p);
             finalTranscript = finalTranscript_of (transcript (vapi p));
             questionCount = questionCount_of (interview p);
             evaluation = evaluateTranscript rnd (transcript (vapi p)) questionCount;
             p = emit (Evaluated evaluation) p
         in case interview p of
              None \<Rightarrow> p
            | Some iv \<Rightarrow>
                (let interviewId = interviewId_of iv;
                     p = (if truthy interviewId
                          then emit (Saved \<lparr>save_interviewId = the interviewId,
                                             save_userId = userId iv,
                                             save_fullTranscript = finalTranscript,
                                             save_evaluation = evaluation,
                                             save_duration = duration\<rparr>) p
                          else p);
                     p = p\<lparr>pendingNavRef := Some \<lparr>nav_interview = iv,
                                                   nav_transcript = finalTranscript,
                                                   nav_evaluation = evaluation\<rparr>\<rparr>;
                     p = p\<lparr>analysing := True\<rparr>
                 in emit NavigationScheduled p)))"

text \<open>The engine's \<open>call-end\<close> event as the page sees it: the hook's listener, then the callback.\<close>

definition engine_call_end :: "int \<Rightarrow> (nat \<Rightarrow> rat) \<Rightarrow> 'e page \<Rightarrow> 'e page" where
  "engine_call_end now rnd p = onCallEnd now rnd (p\<lparr>vapi := on_call_end (vapi p)\<rparr>)"

text \<open>\<open>confirmEnd\<close>, the click handler of the confirmation dialog's button.\<close>

definition confirmEnd :: "'e engine \<Rightarrow> int \<Rightarrow> (nat \<Rightarrow> rat) \<Rightarrow> 'e page \<Rightarrow> 'e page" where
  "confirmEnd E now rnd p =
     (let p = p\<lparr>showConfirm := False\<rparr>;
          p = p\<lparr>vapi := snd (forceStop E (vapi p))\<rparr>;
          duration = duration_of now (callStartTime p);
          finalTranscript = finalTranscript_of (transcript (vapi p));
          questionCount = questionCount_of (interview p);
          evaluation = evaluateTranscript rnd (transcript (vapi p)) questionCount;
          p = emit (Evaluated evaluation) p;
          p = (case interview p of
                 None \<Rightarrow> p
               | Some iv \<Rightarrow>
                   (let interviewId = interviewId_of iv;
                        p = (if truthy interviewId
                             then emit (Saved \<lparr>save_interviewId = the interviewId,
                                                save_userId = userId iv,
                                                save_fullTranscript = finalTranscript,
                                                save_evaluation = evaluation,
                                                save_duration = duration\<rparr>) p
                             else p)
                    in p\<lparr>pendingNavRef := Some \<lparr>nav_interview = iv,
                                                   nav_transcript = finalTranscript,
                                                   nav_evaluation = evaluation\<rparr>\<rparr>));
          p = p\<lparr>analysing := True\<rparr>
      in emit NavigationScheduled p)"

fun is_Evaluated :: "effect \<Rightarrow> bool" where
  "is_Evaluated (Evaluated _) = True"
| "is_Evaluated _ = False"

fun is_Saved :: "effect \<Rightarrow> bool" where
  "is_Saved (Saved _) = True"
| "is_Saved _ = False"

fun is_NavigationScheduled :: "effect \<Rightarrow> bool" where
  "is_NavigationScheduled NavigationScheduled = True"
| "is_NavigationScheduled _ = False"

text \<open>How often a run of handlers evaluated, saved and scheduled the navigation.\<close>

definition triggered :: "'e page \<Rightarrow> nat \<times> nat \<times> nat" where
  "triggered p =
     (length (filter is_Evaluated (effects p)),
      length (filter is_Saved (effects p)),
      length (filter is_NavigationScheduled (effects p)))"

text \<open>
  A session in progress for the concrete runs below: an interview with an id and two
  questions, the call started at clock value 1000, one final entry of each speaker, the
  confirmation dialog open.
\<close>

definition demo_interview :: Interview where
  "demo_interview =
     \<lparr>id_field = Some (js ''iv1''), mongo_id_field = None, userId = js ''u1'',
      questions = [js ''Tell me about yourself.'', js ''Why this role?'']\<rparr>"

definition demo_page :: "engine_call list page" where
  "demo_page =
     \<lparr>interview = Some demo_interview,
      callStartTime = Some 1000,
      showConfirm = True,
      analysing = False,
      pendingNavRef = None,
      vapi = \<lparr>isCallActive = True, isMuted = False, isLoading = False, error = None,
              transcript = [\<lparr>role = Assistant, text = js ''Why this role?'', isFinal = True, timestamp = 2000\<rparr>,
                            \<lparr>role = User, text = js ''I like it'', isFinal = True, timestamp = 3000\<rparr>],
              vapiRef = Some [Start]\<rparr>,
      effects = []\<rparr>"

section \<open>Properties of the transcript reconciler\<close>

lemma findIndex_None: "findIndex P xs = None \<longleftrightarrow> filter P xs = []"
  by (induction xs) auto

lemma findIndex_Some: "findIndex P xs = Some i \<Longrightarrow> i < length xs \<and> P (xs ! i)"
  by (induction xs arbitrary: i) (auto split: if_splits)

lemma filter_update_same:
  "i < length xs \<Longrightarrow> P y = P (xs ! i) \<Longrightarrow> length (filter P (xs[i := y])) = length (filter P xs)"
proof (induction xs arbitrary: i)
  case Nil
  then show ?case by simp
next
  case (Cons x xs)
  then show ?case by (cases i) auto
qed

lemma filter_out_unique:
  "length (filter P xs) \<le> 1 \<Longrightarrow> findIndex P xs = Some i \<Longrightarrow>
   filter (\<lambda>x. \<not> P x) xs = take i xs @ drop (Suc i) xs"
proof (induction xs arbitrary: i)
  case Nil
  then show ?case by simp
next
  case (Cons x xs)
  show ?case
  proof (cases "P x")
    case True
    with Cons.prems have "filter P xs = []" and "i = 0" by auto
    then have "filter (\<lambda>x. \<not> P x) xs = xs"
      by (simp add: filter_empty_conv)
    with True \<open>i = 0\<close> show ?thesis by simp
  next
    case False
    with Cons.prems obtain j where j: "findIndex P xs = Some j" "i = Suc j"
      by (auto split: if_splits)
    from False Cons.prems have "length (filter P xs) \<le> 1" by simp
    from Cons.IH [OF this j(1)] False j(2) show ?thesis by simp
  qed
qed

lemma dropWhile_all: "list_all P xs \<Longrightarrow> dropWhile P xs = []"
  by (induction xs) auto

lemma trim_blank: "list_all isWhiteSpace s \<Longrightarrow> trim s = []"
  by (simp add: trim_def dropWhile_all)

lemma trim_empty_iff: "trim s = [] \<longleftrightarrow> list_all isWhiteSpace s"
proof
  assume "trim s = []"
  then have all_ws: "\<forall>c\<in>set (dropWhile isWhiteSpace s). isWhiteSpace c"
    by (simp add: trim_def)
  have "dropWhile isWhiteSpace s = []"
  proof (rule ccontr)
    assume ne: "dropWhile isWhiteSpace s \<noteq> []"
    then have "\<not> isWhiteSpace (hd (dropWhile isWhiteSpace s))"
      by (rule hd_dropWhile)
    moreover from ne have "hd (dropWhile isWhiteSpace s) \<in> set (dropWhile isWhiteSpace s)"
      by simp
    ultimately show False
      using all_ws by blast
  qed
  then show "list_all isWhiteSpace s"
    by (simp add: list_all_iff)
qed (rule trim_blank)

lemma partials_updater_le:
  "length (partials q prev) \<le> 1 \<Longrightarrow> length (partials q (updater r t fin now prev)) \<le> 1"
proof (cases fin)
  case True
  assume inv: "length (partials q prev) \<le> 1"
  have "partials q (updater r t True now prev) =
        filter (\<lambda>e. \<not> (role e = r \<and> \<not> isFinal e)) (partials q prev)"
    by (simp add: partials_def updater_def conj_commute)
  then have "length (partials q (updater r t True now prev)) \<le> length (partials q prev)"
    by simp
  with inv True show ?thesis by simp
next
  case False
  assume inv: "length (partials q prev) \<le> 1"
  show ?thesis
  proof (cases "findIndex (\<lambda>e. role e = r \<and> \<not> isFinal e) prev")
    case None
    then have none: "partials r prev = []"
      by (simp add: findIndex_None partials_def)
    show ?thesis
    proof (cases "q = r")
      case True
      with none None False show ?thesis by (simp add: updater_def partials_def)
    next
      case neq: False
      with None False inv show ?thesis by (simp add: updater_def partials_def)
    qed
  next
    case (Some idx)
    then have idx: "idx < length prev"
      using findIndex_Some by fastforce
    have "length (partials q (prev[idx := (prev ! idx)\<lparr>text := t\<rparr>])) = length (partials q prev)"
      unfolding partials_def by (rule filter_update_same [OF idx]) simp
    with Some False inv show ?thesis by (simp add: updater_def)
  qed
qed

lemma one_partial_updater: "one_partial q prev \<Longrightarrow> one_partial q (updater r t fin now prev)"
  unfolding one_partial_def by (rule partials_updater_le)

lemma one_partial_on_message: "one_partial q prev \<Longrightarrow> one_partial q (on_message now m prev)"
  by (simp add: on_message_def one_partial_updater)

lemma one_partial_reconcile: "one_partial q start \<Longrightarrow> one_partial q (reconcile evs start)"
  unfolding reconcile_def
  by (induction evs arbitrary: start) (auto simp: one_partial_on_message)

lemma one_partial_Nil: "one_partial q []"
  by (simp add: one_partial_def partials_def)

lemma filter_isFinal_update:
  "i < length xs \<Longrightarrow> \<not> isFinal (xs ! i) \<Longrightarrow>
   filter isFinal (xs[i := (xs ! i)\<lparr>text := t\<rparr>]) = filter isFinal xs"
proof (induction xs arbitrary: i)
  case Nil
  then show ?case by simp
next
  case (Cons x xs)
  then show ?case by (cases i) auto
qed

lemma filter_isFinal_updater:
  "filter isFinal (updater r t fin now prev) =
   filter isFinal prev @
     (if fin then [\<lparr>role = r, text = t, isFinal = True, timestamp = now\<rparr>] else [])"
proof (cases fin)
  case True
  have "filter isFinal (filter (\<lambda>e. \<not> (role e = r \<and> \<not> isFinal e)) prev) = filter isFinal prev"
    by (induction prev) auto
  with True show ?thesis by (simp add: updater_def)
next
  case False
  show ?thesis
  proof (cases "findIndex (\<lambda>e. role e = r \<and> \<not> isFinal e) prev")
    case None
    with False show ?thesis by (simp add: updater_def)
  next
    case (Some idx)
    then have "idx < length prev" "\<not> isFinal (prev ! idx)"
      using findIndex_Some by fastforce+
    then have "filter isFinal (prev[idx := (prev ! idx)\<lparr>text := t\<rparr>]) = filter isFinal prev"
      by (rule filter_isFinal_update)
    with Some False show ?thesis by (simp add: updater_def)
  qed
qed

text \<open>
  Claim C3. Whatever finite sequence of messages the handler processes, starting from the
  empty transcript, the entry list holds at most one non-final entry of each role.
\<close>

theorem partial_unique_after_any_events:
  "length (filter (\<lambda>e. role e = q \<and> \<not> isFinal e) (reconcile evs [])) \<le> 1"
  using one_partial_reconcile [OF one_partial_Nil, of q evs]
  by (simp add: one_partial_def partials_def)

theorem partial_unique_after_any_events_witness:
  "length (filter (\<lambda>e. role e = User \<and> \<not> isFinal e)
     (reconcile [(1, partial_user_msg), (2, final_assistant_msg), (3, partial_user_msg)] [])) \<le> 1"
  by (rule partial_unique_after_any_events)

text \<open>
  Claim C4, as stated, fails: a final message does not take the position of the partial
  entry it replaces. The candidate's partial entry is first, the interviewer's final entry
  second; the candidate's final message then yields the interviewer's entry first and the
  new final entry second.
\<close>

theorem final_takes_partial_position_counterexample:
  "reconcile [(1, partial_user_msg), (2, final_assistant_msg)] [] =
     [\<lparr>role = User, text = js ''Hi there I think'', isFinal = False, timestamp = 1\<rparr>,
      \<lparr>role = Assistant, text = js ''Go ahead'', isFinal = True, timestamp = 2\<rparr>] \<and>
   reconcile [(1, partial_user_msg), (2, final_assistant_msg), (3, final_user_msg)] [] =
     [\<lparr>role = Assistant, text = js ''Go ahead'', isFinal = True, timestamp = 2\<rparr>,
      \<lparr>role = User, text = js ''Hi there I think I am ready'', isFinal = True, timestamp = 3\<rparr>] \<and>
   reconcile [(1, partial_user_msg), (2, final_assistant_msg), (3, final_user_msg)] [] ! 0 \<noteq>
      \<lparr>role = User, text = js ''Hi there I think I am ready'', isFinal = True, timestamp = 3\<rparr>"
  by code_simp

text \<open>
  Claim C4, amended. When a non-blank final message for a role arrives at a transcript
  (reached from the empty one) whose non-final entry of that role is at index \<open>i\<close>,
  that entry is removed, the entries before and after it keep their order, and the new
  final entry is appended as the last element; the length is unchanged.
\<close>

theorem final_appended_after_partial_removed:
  assumes "msg_type m = js ''transcript''"
    and "message_isFinal m"
    and "\<not> list_all isWhiteSpace (message_text m)"
    and "findIndex (\<lambda>e. role e = message_role m \<and> \<not> isFinal e) (reconcile evs []) = Some i"
  shows "on_message now m (reconcile evs []) =
           take i (reconcile evs []) @ drop (Suc i) (reconcile evs []) @
             [\<lparr>role = message_role m, text = message_text m, isFinal = True, timestamp = now\<rparr>] \<and>
         length (on_message now m (reconcile evs [])) = length (reconcile evs []) \<and>
         last (on_message now m (reconcile evs [])) =
           \<lparr>role = message_role m, text = message_text m, isFinal = True, timestamp = now\<rparr>"
proof -
  let ?prev = "reconcile evs []"
  let ?P = "\<lambda>e. role e = message_role m \<and> \<not> isFinal e"
  have "one_partial (message_role m) ?prev"
    by (rule one_partial_reconcile [OF one_partial_Nil])
  then have "length (filter ?P ?prev) \<le> 1"
    by (simp add: one_partial_def partials_def)
  from filter_out_unique [OF this assms(4)]
  have "filter (\<lambda>e. \<not> ?P e) ?prev = take i ?prev @ drop (Suc i) ?prev" .
  with assms(1-3) have eq: "on_message now m ?prev =
           take i ?prev @ drop (Suc i) ?prev @
             [\<lparr>role = message_role m, text = message_text m, isFinal = True, timestamp = now\<rparr>]"
    by (simp add: on_message_def updater_def trim_empty_iff)
  from assms(4) have "i < length ?prev"
    using findIndex_Some by fastforce
  with eq have "length (on_message now m ?prev) = length ?prev"
    by simp
  moreover from eq have "last (on_message now m ?prev) =
           \<lparr>role = message_role m, text = message_text m, isFinal = True, timestamp = now\<rparr>"
    by simp
  ultimately show ?thesis
    using eq by blast
qed

theorem final_appended_after_partial_removed_witness:
  "on_message 3 final_user_msg (reconcile [(1, partial_user_msg), (2, final_assistant_msg)] []) =
     take 0 (reconcile [(1, partial_user_msg), (2, final_assistant_msg)] []) @
     drop (Suc 0) (reconcile [(1, partial_user_msg), (2, final_assistant_msg)] []) @
       [\<lparr>role = message_role final_user_msg, text = message_text final_user_msg,
         isFinal = True, timestamp = 3\<rparr>] \<and>
   length (on_message 3 final_user_msg (reconcile [(1, partial_user_msg), (2, final_assistant_msg)] [])) =
     length (reconcile [(1, partial_user_msg), (2, final_assistant_msg)] []) \<and>
   last (on_message 3 final_user_msg (reconcile [(1, partial_user_msg), (2, final_assistant_msg)] [])) =
     \<lparr>role = message_role final_user_msg, text = message_text final_user_msg,
      isFinal = True, timestamp = 3\<rparr>"
proof -
  have h1: "msg_type final_user_msg = js ''transcript''"
    by code_simp
  have h2: "message_isFinal final_user_msg"
    by code_simp
  have h3: "\<not> list_all isWhiteSpace (message_text final_user_msg)"
    by code_simp
  have h4: "findIndex (\<lambda>e. role e = message_role final_user_msg \<and> \<not> isFinal e)
              (reconcile [(1, partial_user_msg), (2, final_assistant_msg)] []) = Some 0"
    by code_simp
  show ?thesis
    by (rule final_appended_after_partial_removed [OF h1 h2 h3 h4])
qed

text \<open>
  Claim C5. A message never changes or removes a final entry: after any message the final
  entries of the transcript are the ones before it, unchanged and in the same order,
  followed by one new, separate entry exactly when the message is a non-blank final
  transcript message. In particular a partial message leaves every final entry as it was.
\<close>

theorem final_entries_immutable:
  "filter isFinal (on_message now m prev) =
   filter isFinal prev @
     (if msg_type m = js ''transcript'' \<and> \<not> list_all isWhiteSpace (message_text m) \<and> message_isFinal m
      then [\<lparr>role = message_role m, text = message_text m, isFinal = True, timestamp = now\<rparr>]
      else [])"
  by (simp add: on_message_def filter_isFinal_updater trim_empty_iff)

theorem final_entries_immutable_witness:
  "filter isFinal (on_message 3 partial_user_msg
      (reconcile [(1, final_user_msg), (2, final_assistant_msg)] [])) =
     filter isFinal (reconcile [(1, final_user_msg), (2, final_assistant_msg)] []) \<and>
   filter isFinal (on_message 3 final_user_msg
      (reconcile [(1, final_user_msg), (2, final_assistant_msg)] [])) =
     filter isFinal (reconcile [(1, final_user_msg), (2, final_assistant_msg)] []) @
       [\<lparr>role = User, text = js ''Hi there I think I am ready'', isFinal = True, timestamp = 3\<rparr>]"
proof -
  have p: "\<not> message_isFinal partial_user_msg"
    by code_simp
  have f: "msg_type final_user_msg = js ''transcript'' \<and>
           \<not> list_all isWhiteSpace (js ''Hi there I think I am ready'') \<and>
           message_isFinal final_user_msg \<and>
           message_role final_user_msg = User \<and>
           message_text final_user_msg = js ''Hi there I think I am ready''"
    by code_simp
  show ?thesis
    using final_entries_immutable [of 3 partial_user_msg "reconcile [(1, final_user_msg), (2, final_assistant_msg)] []"]
      final_entries_immutable [of 3 final_user_msg "reconcile [(1, final_user_msg), (2, final_assistant_msg)] []"]
      p f
    by simp
qed

text \<open>
  Claim C9. A message whose text is empty or consists of white space only, partial or
  final, of either role, leaves the entry list as it was.
\<close>

theorem blank_event_rejected:
  "list_all isWhiteSpace (message_text m) \<Longrightarrow> on_message now m prev = prev"
  by (simp add: on_message_def trim_blank)

theorem blank_event_rejected_witness:
  "list_all isWhiteSpace (message_text blank_user_msg) \<and>
   message_text blank_user_msg = [0x0020, 0x0009, 0x00A0] \<and>
   on_message 3 blank_user_msg (reconcile [(1, partial_user_msg), (2, final_assistant_msg)] []) =
     reconcile [(1, partial_user_msg), (2, final_assistant_msg)] []"
proof -
  have mtext: "message_text blank_user_msg = [0x0020, 0x0009, 0x00A0]"
    by (simp add: message_text_def blank_user_msg_def truthy_def)
  then have ws: "list_all isWhiteSpace (message_text blank_user_msg)"
    by (simp add: isWhiteSpace_def)
  from ws mtext blank_event_rejected [OF ws] show ?thesis by simp
qed

section \<open>Properties of the evaluation heuristic\<close>

lemma catScore_bounds: "50 \<le> catScore r b v \<and> catScore r b v \<le> 82"
  by (simp add: catScore_def Let_def)

lemma totalScore_of_bounds: "50 \<le> totalScore_of cats \<and> totalScore_of cats \<le> 82"
  by (simp add: totalScore_of_def)

lemma totalScore_evaluateTranscript:
  "totalScore (evaluateTranscript rnd entries qc) =
     totalScore_of (categories rnd (answeredRatio (userEntries entries) qc)
        (avgWordsPerAnswer (userEntries entries)) (totalUserWords (userEntries entries)))"
  by (simp add: evaluateTranscript_def Let_def split: prod.splits)

lemma categoryScores_evaluateTranscript:
  "categoryScores (evaluateTranscript rnd entries qc) =
     categories rnd (answeredRatio (userEntries entries) qc)
        (avgWordsPerAnswer (userEntries entries)) (totalUserWords (userEntries entries))"
  by (simp add: evaluateTranscript_def Let_def split: prod.splits)

lemma strengths_evaluateTranscript:
  "strengths (evaluateTranscript rnd entries qc) =
     fst (feedback (answeredRatio (userEntries entries) qc)
        (avgWordsPerAnswer (userEntries entries)) (totalUserWords (userEntries entries)))"
  by (simp add: evaluateTranscript_def Let_def split: prod.splits)

lemma areasForImprovement_evaluateTranscript:
  "areasForImprovement (evaluateTranscript rnd entries qc) =
     snd (feedback (answeredRatio (userEntries entries) qc)
        (avgWordsPerAnswer (userEntries entries)) (totalUserWords (userEntries entries)))"
  by (simp add: evaluateTranscript_def Let_def split: prod.splits)

lemma categories_scores:
  "map score (categories rnd ratio avg tw) =
     [catScore (rnd 0) (commBase ratio avg) 6,
      catScore (rnd 1) (techBase ratio avg tw) 7,
      catScore (rnd 2) (problemBase ratio avg) 6,
      catScore (rnd 3) (cultureBase ratio avg) 5,
      catScore (rnd 4) (confBase ratio avg) 6]"
  by (simp add: categories_def)

lemma categories_bounds:
  "c \<in> set (categories rnd ratio avg tw) \<Longrightarrow> 50 \<le> score c \<and> score c \<le> 82"
proof -
  assume "c \<in> set (categories rnd ratio avg tw)"
  then have "score c \<in> set (map score (categories rnd ratio avg tw))"
    by simp
  then show ?thesis
    unfolding categories_scores using catScore_bounds by auto
qed

lemma feedback_nonempty: "fst (feedback ratio avg tw) \<noteq> [] \<and> snd (feedback ratio avg tw) \<noteq> []"
  by (simp add: feedback_def Let_def)







text \<open>
  Claim C2. For every entry list, every question count and every value of the five random
  draws, the total score and each of the five category scores is an integer between 50
  and 82.
\<close>

theorem scores_within_bounds:
  "50 \<le> totalScore (evaluateTranscript rnd entries questionCount) \<and>
   totalScore (evaluateTranscript rnd entries questionCount) \<le> 82 \<and>
   length (categoryScores (evaluateTranscript rnd entries questionCount)) = 5 \<and>
   (\<forall>c \<in> set (categoryScores (evaluateTranscript rnd entries questionCount)).
      50 \<le> score c \<and> score c \<le> 82)"
  using totalScore_of_bounds categories_bounds
  by (simp add: totalScore_evaluateTranscript categoryScores_evaluateTranscript categories_def)

theorem scores_within_bounds_witness:
  "50 \<le> totalScore (evaluateTranscript (\<lambda>k. 9 / 10) (transcript (vapi demo_page)) 2) \<and>
   totalScore (evaluateTranscript (\<lambda>k. 9 / 10) (transcript (vapi demo_page)) 2) \<le> 82 \<and>
   length (categoryScores (evaluateTranscript (\<lambda>k. 9 / 10) (transcript (vapi demo_page)) 2)) = 5 \<and>
   list_all (\<lambda>c. 50 \<le> score c \<and> score c \<le> 82)
     (categoryScores (evaluateTranscript (\<lambda>k. 9 / 10) (transcript (vapi demo_page)) 2))"
  using scores_within_bounds [of "\<lambda>k. 9 / 10" "transcript (vapi demo_page)" 2]
  unfolding list_all_iff by blast

text \<open>
  Claim C7. For every entry list and every question count, the strengths and the
  improvements returned are both non-empty.
\<close>

theorem feedback_lists_nonempty:
  "strengths (evaluateTranscript rnd entries questionCount) \<noteq> [] \<and>
   areasForImprovement (evaluateTranscript rnd entries questionCount) \<noteq> []"
  using feedback_nonempty
  by (simp add: strengths_evaluateTranscript areasForImprovement_evaluateTranscript)

theorem feedback_lists_nonempty_witness:
  "strengths (evaluateTranscript (\<lambda>k. 9 / 10) (transcript (vapi demo_page)) 2) \<noteq> [] \<and>
   areasForImprovement (evaluateTranscript (\<lambda>k. 9 / 10) (transcript (vapi demo_page)) 2) \<noteq> []"
  by (rule feedback_lists_nonempty)




section \<open>Properties of the call lifecycle\<close>

lemma forceStop_returns: "fst (forceStop E h) = None"
  by (simp add: forceStop_def split: option.splits prod.splits)

lemma forceStop_Some:
  "vapiRef h = Some v \<Longrightarrow>
   snd (forceStop E h) =
     h\<lparr>vapiRef := Some (snd (eng_stop E (snd (eng_setMuted E True v)))),
       isCallActive := False, isLoading := False, isMuted := False\<rparr>"
  by (simp add: forceStop_def split: prod.splits)

lemma forceStop_None: "vapiRef h = None \<Longrightarrow> snd (forceStop E h) = h"
  by (simp add: forceStop_def)

lemma hook_step_no_engine: "vapiRef h = None \<Longrightarrow> hook_step E h a = h"
  by (cases a) (simp_all add: startCall_def stopCall_def forceStop_def toggleMute_def)

lemma run_no_engine: "vapiRef h = None \<Longrightarrow> run E acts h = h"
  unfolding run_def by (induction acts) (simp_all add: hook_step_no_engine)

lemma mount_no_engine: "vapiRef (mount hasKey e0) = None \<Longrightarrow> flags (mount hasKey e0) = (False, False, False)"
  by (simp add: mount_def flags_def Let_def split: if_splits)

lemma hook_step_keeps_engine: "vapiRef h \<noteq> None \<Longrightarrow> vapiRef (hook_step E h a) \<noteq> None"
  by (cases a)
    (auto simp: startCall_def stopCall_def forceStop_def toggleMute_def on_call_start_def
      on_call_end_def on_transcript_message_def on_error_def Let_def
      split: option.splits prod.splits thrown.splits)

lemma run_keeps_engine: "vapiRef h \<noteq> None \<Longrightarrow> vapiRef (run E acts h) \<noteq> None"
proof (induction acts arbitrary: h)
  case Nil
  then show ?case by (simp add: run_def)
next
  case (Cons a acts)
  from Cons.prems have "vapiRef (hook_step E h a) \<noteq> None"
    by (rule hook_step_keeps_engine)
  then have "vapiRef (run E acts (hook_step E h a)) \<noteq> None"
    by (rule Cons.IH)
  then show ?case by (simp add: run_def)
qed

lemma reachable_no_engine:
  assumes "vapiRef (run E acts (mount hasKey e0)) = None"
  shows "flags (run E acts (mount hasKey e0)) = (False, False, False)"
proof (cases hasKey)
  case True
  then have "vapiRef (mount hasKey e0) \<noteq> None"
    by (simp add: mount_def)
  then have "vapiRef (run E acts (mount hasKey e0)) \<noteq> None"
    by (rule run_keeps_engine)
  with assms show ?thesis by simp
next
  case False
  then have "vapiRef (mount hasKey e0) = None"
    by (simp add: mount_def)
  then show ?thesis
    by (simp add: run_no_engine mount_no_engine)
qed

text \<open>
  Claim C10. In every state a mounted hook can reach (any run of engine events and
  commands, with or without a configured key), \<open>forceStop\<close> returns normally and
  leaves \<open>isCallActive\<close>, \<open>isLoading\<close> and \<open>isMuted\<close> all false; the
  engine, when there is one, has by then received \<open>setMuted(true)\<close> and then
  \<open>stop()\<close>, so the exposed mute flag reads false although muting was just requested.
\<close>

theorem forceStop_resets_flags:
  "fst (forceStop E (run E acts (mount hasKey e0))) = None \<and>
   \<not> isCallActive (snd (forceStop E (run E acts (mount hasKey e0)))) \<and>
   \<not> isLoading (snd (forceStop E (run E acts (mount hasKey e0)))) \<and>
   \<not> isMuted (snd (forceStop E (run E acts (mount hasKey e0)))) \<and>
   vapiRef (snd (forceStop E (run E acts (mount hasKey e0)))) =
     map_option (\<lambda>v. snd (eng_stop E (snd (eng_setMuted E True v))))
       (vapiRef (run E acts (mount hasKey e0)))"
proof (cases "vapiRef (run E acts (mount hasKey e0))")
  case None
  from reachable_no_engine [OF None] forceStop_None [OF None] None show ?thesis
    by (simp add: forceStop_returns flags_def)
next
  case (Some v)
  from forceStop_Some [OF Some] Some show ?thesis
    by (simp add: forceStop_returns)
qed

theorem forceStop_resets_flags_witness:
  "isMuted (run logging_engine [StartCall [], CallStart, ToggleMute] (mount True [])) \<and>
   isCallActive (run logging_engine [StartCall [], CallStart, ToggleMute] (mount True [])) \<and>
   fst (forceStop logging_engine (run logging_engine [StartCall [], CallStart, ToggleMute] (mount True []))) = None \<and>
   \<not> isCallActive (snd (forceStop logging_engine (run logging_engine [StartCall [], CallStart, ToggleMute] (mount True [])))) \<and>
   \<not> isLoading (snd (forceStop logging_engine (run logging_engine [StartCall [], CallStart, ToggleMute] (mount True [])))) \<and>
   \<not> isMuted (snd (forceStop logging_engine (run logging_engine [StartCall [], CallStart, ToggleMute] (mount True [])))) \<and>
   vapiRef (snd (forceStop logging_engine (run logging_engine [StartCall [], CallStart, ToggleMute] (mount True [])))) =
     Some [Start, SetMuted True, SetMuted True, Stop]"
proof -
  have before: "run logging_engine [StartCall [], CallStart, ToggleMute] (mount True []) =
      \<lparr>isCallActive = True, isMuted = True, isLoading = False, error = None, transcript = [],
       vapiRef = Some [Start, SetMuted True]\<rparr>"
    by code_simp
  have eng: "snd (eng_stop logging_engine (snd (eng_setMuted logging_engine True [Start, SetMuted True]))) =
      [Start, SetMuted True, SetMuted True, Stop]"
    by (simp add: logging_engine_def)
  from forceStop_resets_flags [of logging_engine "[StartCall [], CallStart, ToggleMute]" True "[]"]
  show ?thesis
    unfolding before by (simp add: eng)
qed


lemma forceStop_flags_any:
  "flags (snd (forceStop E h)) = (if vapiRef h = None then flags h else (False, False, False))"
  by (simp add: forceStop_def flags_def split: option.splits prod.splits)

lemma forceStop_engine_kept: "(vapiRef (snd (forceStop E h)) = None) = (vapiRef h = None)"
  by (simp add: forceStop_def split: option.splits prod.splits)

lemma forceStop_twice_flags:
  "flags (snd (forceStop E (snd (forceStop E h)))) = flags (snd (forceStop E h))"
  by (simp add: forceStop_flags_any forceStop_engine_kept)

lemma stopCall_exposed:
  "flags (snd (stopCall E h)) = flags h \<and> error (snd (stopCall E h)) = error h \<and>
   transcript (snd (stopCall E h)) = transcript h"
  by (simp add: stopCall_def flags_def split: option.splits prod.splits)

lemma stopCall_raises:
  "fst (stopCall E h) = (case vapiRef h of None \<Rightarrow> None | Some v \<Rightarrow> fst (eng_stop E v))"
  by (simp add: stopCall_def split: option.splits prod.splits)

lemma forceStop_ended: "ended h \<Longrightarrow> ended (snd (forceStop E h))"
  by (simp add: forceStop_def ended_def split: option.splits prod.splits)

lemma ended_muted_session_eq:
  "ended_muted_session =
     \<lparr>isCallActive = False, isMuted = True, isLoading = False, error = None, transcript = [],
      vapiRef = Some False\<rparr>"
  by code_simp

text \<open>
  Claim C8, as stated, fails in its second half. In a session that has ended (the caller
  muted and stopped the call and the engine reported the end), with an engine whose
  \<open>stop\<close> throws when no call is in progress, a further \<open>stopCall\<close> passes the
  engine's error on to its caller, and a further \<open>forceStop\<close> changes the exposed
  mute flag from true to false.
\<close>

theorem second_stop_no_op_counterexample:
  "ended ended_muted_session \<and>
   fst (stopCall strict_engine ended_muted_session) = Some (Error (js ''No call in progress'')) \<and>
   flags ended_muted_session = (False, False, True) \<and>
   flags (snd (forceStop strict_engine ended_muted_session)) = (False, False, False)"
  by code_simp

text \<open>
  Claim C8, amended. For every engine and every state, \<open>forceStop\<close> returns normally,
  also when called again, and the second call leaves the three flags as the first left
  them (all false when there is an engine, so a set mute flag is reset); it keeps an ended
  session ended. \<open>stopCall\<close> changes none of the flags, the
  error or the transcript, and raises exactly what the engine's \<open>stop\<close> raises
  (nothing when there is no engine).
\<close>

theorem forceStop_idempotent_stop_forwarded:
  "fst (forceStop E h) = None \<and>
   fst (forceStop E (snd (forceStop E h))) = None \<and>
   flags (snd (forceStop E (snd (forceStop E h)))) = flags (snd (forceStop E h)) \<and>
   flags (snd (forceStop E h)) = (if vapiRef h = None then flags h else (False, False, False)) \<and>
   (ended h \<longrightarrow> ended (snd (forceStop E h))) \<and>
   flags (snd (stopCall E h)) = flags h \<and>
   error (snd (stopCall E h)) = error h \<and>
   transcript (snd (stopCall E h)) = transcript h \<and>
   fst (stopCall E h) = (case vapiRef h of None \<Rightarrow> None | Some v \<Rightarrow> fst (eng_stop E v))"
  using forceStop_returns [of E h] forceStop_returns [of E "snd (forceStop E h)"]
    forceStop_twice_flags [of E h] forceStop_flags_any [of E h] forceStop_ended [of h E]
    stopCall_exposed [of E h] stopCall_raises [of E h]
  by blast

theorem forceStop_idempotent_stop_forwarded_witness:
  "ended ended_muted_session \<and>
   fst (forceStop strict_engine ended_muted_session) = None \<and>
   fst (forceStop strict_engine (snd (forceStop strict_engine ended_muted_session))) = None \<and>
   flags (snd (forceStop strict_engine (snd (forceStop strict_engine ended_muted_session)))) =
     flags (snd (forceStop strict_engine ended_muted_session)) \<and>
   ended (snd (forceStop strict_engine ended_muted_session)) \<and>
   flags (snd (stopCall strict_engine ended_muted_session)) = flags ended_muted_session \<and>
   fst (stopCall strict_engine ended_muted_session) = fst (eng_stop strict_engine False)"
proof -
  have e: "ended ended_muted_session"
    by (simp add: ended_muted_session_eq ended_def)
  have v: "vapiRef ended_muted_session = Some False"
    by (simp add: ended_muted_session_eq)
  from forceStop_idempotent_stop_forwarded [of strict_engine ended_muted_session] e v
  show ?thesis
    by simp
qed

section \<open>Properties of the interview page\<close>

lemma analysing_confirmEnd: "analysing (confirmEnd E now rnd p)"
  by (simp add: confirmEnd_def Let_def emit_def split: option.splits)

lemma effects_call_end_after_confirmEnd:
  "effects (engine_call_end now2 rnd2 (confirmEnd E now1 rnd1 p)) = effects (confirmEnd E now1 rnd1 p)"
  by (simp add: engine_call_end_def onCallEnd_def analysing_confirmEnd)

lemma triggered_call_end_after_confirmEnd:
  "triggered (engine_call_end now2 rnd2 (confirmEnd E now1 rnd1 p)) =
     triggered (confirmEnd E now1 rnd1 p)"
  by (simp add: triggered_def effects_call_end_after_confirmEnd)

lemma triggered_confirmEnd:
  assumes "interview p = Some iv" and "truthy (interviewId_of iv)"
  shows "triggered (confirmEnd E now rnd p) =
           (case triggered p of (e, s, n) \<Rightarrow> (Suc e, Suc s, Suc n))"
  using assms by (simp add: confirmEnd_def Let_def emit_def triggered_def)

lemma triggered_engine_call_end:
  assumes "interview p = Some iv" and "truthy (interviewId_of iv)" and "\<not> analysing p"
  shows "triggered (engine_call_end now rnd p) =
           (case triggered p of (e, s, n) \<Rightarrow> (Suc e, Suc s, Suc n))"
  using assms by (simp add: engine_call_end_def onCallEnd_def Let_def emit_def triggered_def)

lemma engine_call_end_keeps:
  "interview (engine_call_end now rnd p) = interview p \<and>
   showConfirm (engine_call_end now rnd p) = showConfirm p"
  by (simp add: engine_call_end_def onCallEnd_def Let_def emit_def split: option.splits)

lemma demo_page_facts:
  "interview demo_page = Some demo_interview" "truthy (interviewId_of demo_interview)"
  "\<not> analysing demo_page" "showConfirm demo_page" "triggered demo_page = (0, 0, 0)"
  by (simp_all add: demo_page_def demo_interview_def interviewId_of_def truthy_def triggered_def js_def)

text \<open>
  The guard in the order it is written for: once \<open>confirmEnd\<close> has run, a
  \<open>call-end\<close> handler that sees the new value of \<open>analysing\<close> adds no effect.
\<close>

lemma call_end_after_confirmEnd_adds_nothing:
  "triggered (engine_call_end now2 rnd2 (confirmEnd E now1 rnd1 p)) =
     triggered (confirmEnd E now1 rnd1 p)"
  by (rule triggered_call_end_after_confirmEnd)

text \<open>
  Claim C1 asks that both termination triggers in one session evaluate, save and schedule
  the navigation exactly once, in either order. The code does not: \<open>onCallEnd\<close>
  consults the guard \<open>analysing\<close>, \<open>confirmEnd\<close> does not. When the engine ends
  the call while the confirmation dialog is open, the dialog stays open (the first
  trigger has run once and set the guard), and the confirming click then evaluates,
  saves and schedules the navigation a second time.
\<close>

theorem engine_end_then_confirm_runs_twice:
  "showConfirm demo_page \<and>
   triggered (engine_call_end 8000 no_jitter demo_page) = (1, 1, 1) \<and>
   analysing (engine_call_end 8000 no_jitter demo_page) \<and>
   showConfirm (engine_call_end 8000 no_jitter demo_page) \<and>
   triggered (confirmEnd logging_engine 9000 no_jitter
      (engine_call_end 8000 no_jitter demo_page)) = (2, 2, 2)"
proof -
  let ?p1 = "engine_call_end 8000 no_jitter demo_page"
  have first: "triggered ?p1 = (1, 1, 1)"
    using triggered_engine_call_end [OF demo_page_facts(1-3)] by (simp add: demo_page_facts(5))
  have iv: "interview ?p1 = Some demo_interview"
    by (simp add: engine_call_end_keeps demo_page_facts(1))
  from triggered_confirmEnd [OF iv demo_page_facts(2)]
  have second: "triggered (confirmEnd logging_engine 9000 no_jitter ?p1) = (2, 2, 2)"
    by (simp add: first)
  have guard: "analysing ?p1"
    using iv demo_page_facts(1,3)
    by (simp add: engine_call_end_def onCallEnd_def Let_def emit_def)
  have "showConfirm ?p1"
    by (simp add: engine_call_end_keeps demo_page_facts(4))
  with first second guard demo_page_facts(4) show ?thesis by blast
qed

end
